theory Spec2Isabelle
  imports Main "HOL-Library.AList"
begin

section \<open>JavaScript values\<close>

text \<open>
  The values that reach a validator. Numbers are integers (no NaN, no fractions),
  an object is the list of its own enumerable properties in insertion order, and a
  string is the list of its characters. \<open>Fun n\<close> is a function of \<open>n\<close> declared
  parameters. \<open>RegExp src\<close> is a regular expression without the \<open>g\<close> and \<open>y\<close> flags;
  \<open>RegExpG src sticky a\<close> is one with the \<open>g\<close> flag or (\<open>sticky\<close>) the \<open>y\<close> flag, whose
  \<open>lastIndex\<close> is the cell \<open>a\<close> of the world below.
\<close>

datatype jsval =
    Undefined
  | Null
  | Bool bool
  | Num int
  | Str string
  | Arr "jsval list"
  | Obj "(string \<times> jsval) list"
  | Date int
  | RegExp string
  | RegExpG string bool nat
  | Fun nat

text \<open>
  What a call can end in besides a value: a \<open>TypeError\<close> raised by the language
  (a property read on \<open>null\<close> or \<open>undefined\<close>, a call of \<open>undefined\<close>), or
  \<open>NotModelled\<close> where the source relies on a coercion of JavaScript that this
  development does not embed (a relational comparison with a non-numeric operand).
\<close>

datatype exn = TypeError | NotModelled

text \<open>\<open>!v\<close> is \<open>\<not> truthy v\<close>.\<close>

fun truthy :: "jsval \<Rightarrow> bool" where
  "truthy Undefined = False"
| "truthy Null = False"
| "truthy (Bool b) = b"
| "truthy (Num n) = (n \<noteq> 0)"
| "truthy (Str s) = (s \<noteq> [])"
| "truthy _ = True"

text \<open>\<open>v == null\<close> holds for \<open>null\<close> and \<open>undefined\<close> only.\<close>

fun nullish :: "jsval \<Rightarrow> bool" where
  "nullish Undefined = True"
| "nullish Null = True"
| "nullish _ = False"

text \<open>
  Modelled from the spec: the type classifier \<open>typeOf\<close> (the external package
  component-type), which the spec gives as
  \<open>classify(value) -> "string" | "number" | "boolean" | "array" | "object" | "date" |
  "regexp" | "function" | "null" | "undefined" | ...\<close>.
\<close>

fun typeOf :: "jsval \<Rightarrow> string" where
  "typeOf Undefined = ''undefined''"
| "typeOf Null = ''null''"
| "typeOf (Bool _) = ''boolean''"
| "typeOf (Num _) = ''number''"
| "typeOf (Str _) = ''string''"
| "typeOf (Arr _) = ''array''"
| "typeOf (Obj _) = ''object''"
| "typeOf (Date _) = ''date''"
| "typeOf (RegExp _) = ''regexp''"
| "typeOf (RegExpG _ _ _) = ''regexp''"
| "typeOf (Fun _) = ''function''"

section \<open>Plain objects\<close>

text \<open>
  An object literal \<open>{}\<close> inherits the members of \<open>Object.prototype\<close>: a read \<open>o[k]\<close>
  of a key that \<open>o\<close> does not have itself gives the inherited member when \<open>k\<close> is one
  of these names, and \<open>undefined\<close> otherwise. Every inherited member is truthy.
\<close>

definition Object_prototype_names :: "string list" where
  "Object_prototype_names =
     [''constructor'', ''__defineGetter__'', ''__defineSetter__'', ''hasOwnProperty'',
      ''__lookupGetter__'', ''__lookupSetter__'', ''isPrototypeOf'',
      ''propertyIsEnumerable'', ''toString'', ''valueOf'', ''__proto__'',
      ''toLocaleString'']"

definition inherited :: "string \<Rightarrow> bool" where
  "inherited k = (k \<in> set Object_prototype_names)"

text \<open>
  A key is an array index when it is the canonical decimal form of an integer below
  \<open>2^32 - 1\<close>: digits only, no leading zero.
\<close>

definition digit_of :: "char \<Rightarrow> nat option" where
  "digit_of = map_of (zip ''0123456789'' [0, 1, 2, 3, 4, 5, 6, 7, 8, 9])"

fun decimal :: "string \<Rightarrow> nat \<Rightarrow> nat option" where
  "decimal [] acc = Some acc"
| "decimal (c # cs) acc =
     (case digit_of c of None \<Rightarrow> None | Some d \<Rightarrow> decimal cs (10 * acc + d))"

definition array_index :: "string \<Rightarrow> nat option" where
  "array_index k =
     (case k of
        [] \<Rightarrow> None
      | c # cs \<Rightarrow>
          if c = CHR ''0'' \<and> cs \<noteq> [] then None
          else (case decimal k 0 of
                  None \<Rightarrow> None
                | Some n \<Rightarrow> if n < 4294967295 then Some n else None))"

text \<open>
  \<open>Object.keys(o)\<close> of an object held as the list of its own properties in insertion
  order: the keys that are array indices first, in ascending numeric order, then the
  other keys in insertion order, each key once.
\<close>

definition own_keys :: "(string \<times> 'a) list \<Rightarrow> string list" where
  "own_keys fs = rev (remdups (rev (map fst fs)))"

definition Object_keys :: "(string \<times> 'a) list \<Rightarrow> string list" where
  "Object_keys fs =
     sort_key (\<lambda>k. case array_index k of None \<Rightarrow> 0 | Some i \<Rightarrow> i)
       (filter (\<lambda>k. array_index k \<noteq> None) (own_keys fs))
     @ filter (\<lambda>k. array_index k = None) (own_keys fs)"

text \<open>
  The property read \<open>v.k\<close>: a \<open>TypeError\<close> on \<open>null\<close> and \<open>undefined\<close>; on an
  object the stored value, or \<open>undefined\<close> for a key that is neither stored nor
  inherited. On the other values the reads embedded are those the validators make:
  \<open>length\<close>, which strings, arrays and functions have, and \<open>min\<close> and \<open>max\<close>, which no
  built-in value has. Any other read (an inherited member, a method, an index) is not
  embedded.
\<close>

definition builtin_prop :: "jsval option \<Rightarrow> string \<Rightarrow> exn + jsval" where
  "builtin_prop len k =
     (if k = ''length'' then Inr (case len of None \<Rightarrow> Undefined | Some n \<Rightarrow> n)
      else if k = ''min'' \<or> k = ''max'' then Inr Undefined
      else Inl NotModelled)"

fun get_prop :: "jsval \<Rightarrow> string \<Rightarrow> exn + jsval" where
  "get_prop Undefined k = Inl TypeError"
| "get_prop Null k = Inl TypeError"
| "get_prop (Obj fs) k =
     (case map_of fs k of
        Some v \<Rightarrow> Inr v
      | None \<Rightarrow> if inherited k then Inl NotModelled else Inr Undefined)"
| "get_prop (Str s) k = builtin_prop (Some (Num (int (length s)))) k"
| "get_prop (Arr xs) k = builtin_prop (Some (Num (int (length xs)))) k"
| "get_prop (Fun n) k = builtin_prop (Some (Num (int n))) k"
| "get_prop _ k = builtin_prop None k"

text \<open>
  \<open>a < b\<close> on the operands the model covers: numbers compare as integers,
  \<open>undefined\<close> converts to NaN and makes every comparison false, \<open>null\<close> and
  booleans convert to 0 and 1. Strings and objects are not converted here.
\<close>

fun to_number :: "jsval \<Rightarrow> exn + int option" where
  "to_number Undefined = Inr None"
| "to_number Null = Inr (Some 0)"
| "to_number (Bool b) = Inr (Some (if b then 1 else 0))"
| "to_number (Num n) = Inr (Some n)"
| "to_number _ = Inl NotModelled"

definition js_less :: "jsval \<Rightarrow> jsval \<Rightarrow> exn + bool" where
  "js_less a b =
     (case to_number a of
        Inl e \<Rightarrow> Inl e
      | Inr x \<Rightarrow>
          (case to_number b of
             Inl e \<Rightarrow> Inl e
           | Inr y \<Rightarrow>
               Inr (case (x, y) of (Some m, Some n) \<Rightarrow> m < n | _ \<Rightarrow> False)))"

section \<open>The default validators\<close>

text \<open>
  The default validators are functions of \<open>(value, ctx, arg)\<close> that read their
  arguments and nothing else, so the embedding of each returns a value or an exception
  and no state.
\<close>

definition Validators_required :: "jsval \<Rightarrow> jsval \<Rightarrow> jsval \<Rightarrow> exn + jsval" where
  "Validators_required value ctx required =
     (if required = Bool False then Inr (Bool True)
      else Inr (Bool (\<not> nullish value)))"

definition Validators_nonempty :: "jsval \<Rightarrow> jsval \<Rightarrow> jsval \<Rightarrow> exn + jsval" where
  "Validators_nonempty value ctx nonempty =
     (if nonempty = Bool False then Inr (Bool True)
      else if typeOf value = ''string'' \<or> typeOf value = ''array'' then
        (case get_prop value ''length'' of
           Inl e \<Rightarrow> Inl e
         | Inr n \<Rightarrow>
             (case js_less (Num 0) n of Inl e \<Rightarrow> Inl e | Inr b \<Rightarrow> Inr (Bool b)))
      else if typeOf value = ''object'' then
        (case value of
           Obj fs \<Rightarrow> Inr (Bool (0 < length (Object_keys fs)))
         | _ \<Rightarrow> Inl TypeError)
      else Inr (Bool (\<not> nullish value)))"

text \<open>
  \<open>typeOf(value) == name\<close>: the loose equality of a string with a string is string
  equality; with \<open>null\<close>, \<open>undefined\<close>, a number or a boolean it is false, since no
  classifier name converts to a number; other operands are not converted here.
\<close>

definition Validators_type :: "jsval \<Rightarrow> jsval \<Rightarrow> jsval \<Rightarrow> exn + jsval" where
  "Validators_type value ctx name =
     (case name of
        Str n \<Rightarrow> Inr (Bool (typeOf value = n))
      | Undefined \<Rightarrow> Inr (Bool False)
      | Null \<Rightarrow> Inr (Bool False)
      | Num _ \<Rightarrow> Inr (Bool False)
      | Bool _ \<Rightarrow> Inr (Bool False)
      | _ \<Rightarrow> Inl NotModelled)"

text \<open>
  \<open>length\<close>: the destructuring \<open>let {min, max} = rules\<close> reads both bounds first;
  \<open>value.length\<close> is read only behind a truthy bound.
\<close>

definition Validators_length :: "jsval \<Rightarrow> jsval \<Rightarrow> jsval \<Rightarrow> exn + jsval" where
  "Validators_length value ctx rules =
     (case get_prop rules ''min'' of
        Inl e \<Rightarrow> Inl e
      | Inr min' \<Rightarrow>
     (case get_prop rules ''max'' of
        Inl e \<Rightarrow> Inl e
      | Inr max' \<Rightarrow>
     (case (if truthy min' then
              (case get_prop value ''length'' of
                 Inl e \<Rightarrow> Inl e
               | Inr n \<Rightarrow> js_less n min')
            else Inr False) of
        Inl e \<Rightarrow> Inl e
      | Inr too_short \<Rightarrow>
          if too_short then Inr (Bool False)
          else
     (case (if truthy max' then
              (case get_prop value ''length'' of
                 Inl e \<Rightarrow> Inl e
               | Inr n \<Rightarrow> js_less max' n)
            else Inr False) of
        Inl e \<Rightarrow> Inl e
      | Inr too_long \<Rightarrow>
          if too_long then Inr (Bool False) else Inr (Bool True)))))"

text \<open>
  \<open>enum\<close>: \<open>enums.includes(value)\<close> on an array compares by SameValueZero, which
  is equality of the embedded values for primitives; object identity is not embedded.
\<close>

fun primitive :: "jsval \<Rightarrow> bool" where
  "primitive Undefined = True"
| "primitive Null = True"
| "primitive (Bool _) = True"
| "primitive (Num _) = True"
| "primitive (Str _) = True"
| "primitive _ = False"

definition Validators_enum :: "jsval \<Rightarrow> jsval \<Rightarrow> jsval \<Rightarrow> exn + jsval" where
  "Validators_enum value ctx enums =
     (case enums of
        Arr xs \<Rightarrow> if primitive value then Inr (Bool (value \<in> set xs)) else Inl NotModelled
      | Str _ \<Rightarrow> Inl NotModelled
      | Obj _ \<Rightarrow> Inl NotModelled
      | _ \<Rightarrow> Inl TypeError)"


section \<open>Functions, tables and the store\<close>

text \<open>
  A validator held in a table or passed to \<open>use\<close> is an arbitrary JavaScript function:
  it may read and write state outside the schema, and it may throw. The \<open>world\<close> is
  that outside state: the variables a function closes over, and the \<open>lastIndex\<close> of
  every regular expression that has the \<open>g\<close> or \<open>y\<close> flag. A validator takes the world
  and returns it.
\<close>

record world =
  vars :: "string \<Rightarrow> jsval"
  lastIndex :: "nat \<Rightarrow> nat"

type_synonym validator =
  "world \<Rightarrow> jsval \<Rightarrow> jsval \<Rightarrow> jsval \<Rightarrow> (exn + jsval) \<times> world"

definition stateless :: "(jsval \<Rightarrow> jsval \<Rightarrow> jsval \<Rightarrow> exn + jsval) \<Rightarrow> validator" where
  "stateless f w value ctx arg = (f value ctx arg, w)"

text \<open>
  \<open>regexp.test(string)\<close>. The engine is embedded for the patterns that are a plain
  word (letters and digits only), where a match is an occurrence of the word; other
  patterns are not embedded. Without the \<open>g\<close> and \<open>y\<close> flags the search starts at 0 and
  \<open>lastIndex\<close> is left alone. With one of them the search starts at \<open>lastIndex\<close> (with
  \<open>y\<close> the match must begin there), a match sets \<open>lastIndex\<close> to its end, and a failure
  sets it to 0. The string conversion of the argument is embedded for strings,
  \<open>undefined\<close>, \<open>null\<close> and booleans.
\<close>

definition word_pattern :: "string \<Rightarrow> bool" where
  "word_pattern src =
     (src \<noteq> [] \<and>
      list_all (\<lambda>c. c \<in> set (''abcdefghijklmnopqrstuvwxyz'' @ ''ABCDEFGHIJKLMNOPQRSTUVWXYZ''
                              @ ''0123456789'')) src)"

text \<open>\<open>occurs_from pat s k\<close>: where the first occurrence of \<open>pat\<close> in \<open>s\<close> begins, \<open>s\<close> being
  the part of the string from position \<open>k\<close> on.\<close>

fun occurs_from :: "string \<Rightarrow> string \<Rightarrow> nat \<Rightarrow> nat option" where
  "occurs_from pat [] k = (if pat = [] then Some k else None)"
| "occurs_from pat (c # cs) k =
     (if take (length pat) (c # cs) = pat then Some k else occurs_from pat cs (Suc k))"

definition regexp_exec :: "string \<Rightarrow> bool \<Rightarrow> string \<Rightarrow> nat \<Rightarrow> nat option" where
  "regexp_exec src sticky s i =
     (if sticky then
        (if take (length src) (drop i s) = src then Some (i + length src) else None)
      else
        (case occurs_from src (drop i s) i of
           None \<Rightarrow> None
         | Some j \<Rightarrow> Some (j + length src)))"

text \<open>The string conversion that \<open>test\<close> applies to its argument.\<close>

fun to_string :: "jsval \<Rightarrow> exn + string" where
  "to_string (Str s) = Inr s"
| "to_string Undefined = Inr ''undefined''"
| "to_string Null = Inr ''null''"
| "to_string (Bool b) = Inr (if b then ''true'' else ''false'')"
| "to_string _ = Inl NotModelled"

definition regexp_test :: "jsval \<Rightarrow> jsval \<Rightarrow> world \<Rightarrow> (exn + jsval) \<times> world" where
  "regexp_test regexp value w =
     (case regexp of
        RegExp src \<Rightarrow>
          (case to_string value of
             Inl x \<Rightarrow> (Inl x, w)
           | Inr s \<Rightarrow>
               if word_pattern src then (Inr (Bool (regexp_exec src False s 0 \<noteq> None)), w)
               else (Inl NotModelled, w))
      | RegExpG src sticky a \<Rightarrow>
          (case to_string value of
             Inl x \<Rightarrow> (Inl x, w)
           | Inr s \<Rightarrow>
               if \<not> word_pattern src then (Inl NotModelled, w)
               else if length s < lastIndex w a then
                 (Inr (Bool False), w\<lparr>lastIndex := (lastIndex w)(a := 0)\<rparr>)
               else
                 (case regexp_exec src sticky s (lastIndex w a) of
                    None \<Rightarrow> (Inr (Bool False), w\<lparr>lastIndex := (lastIndex w)(a := 0)\<rparr>)
                  | Some e \<Rightarrow> (Inr (Bool True), w\<lparr>lastIndex := (lastIndex w)(a := e)\<rparr>)))
      | Obj _ \<Rightarrow> (Inl NotModelled, w)
      | _ \<Rightarrow> (Inl TypeError, w))"

text \<open>
  \<open>match\<close>: \<open>regexp.test(value)\<close>. A value without a \<open>test\<close> method makes the call a
  TypeError; an object may have one of its own, which is not embedded.
\<close>

definition Validators_match :: validator where
  "Validators_match w value ctx regexp = regexp_test regexp value w"

text \<open>
  The table of default validators is an object literal, so a read \<open>Validators[name]\<close>
  of a member of \<open>Object.prototype\<close> gives that member; what these members do when
  called as validators is not embedded.
\<close>

definition Object_prototype_member :: validator where
  "Object_prototype_member w value ctx arg = (Inl NotModelled, w)"

definition Validators :: "string \<rightharpoonup> validator" where
  "Validators =
     (\<lambda>k. if inherited k then Some Object_prototype_member else None)
     (''required'' \<mapsto> stateless Validators_required,
      ''nonempty'' \<mapsto> stateless Validators_nonempty,
      ''type'' \<mapsto> stateless Validators_type,
      ''length'' \<mapsto> stateless Validators_length,
      ''enum'' \<mapsto> stateless Validators_enum,
      ''match'' \<mapsto> Validators_match)"

text \<open>A message template is a string or a function of \<open>(path, arg)\<close>.\<close>

datatype template = TStr string | TFn "string \<Rightarrow> jsval \<Rightarrow> string"

fun template_truthy :: "template \<Rightarrow> bool" where
  "template_truthy (TStr s) = (s \<noteq> [])"
| "template_truthy (TFn _) = True"

text \<open>
  The tables are objects on the heap. A schema and its properties hold addresses of
  tables, so that two holders of one address see one table. A table is given by its
  reads: \<open>t k\<close> is the value of \<open>t[k]\<close>, and \<open>None\<close> stands for \<open>undefined\<close>.
\<close>

type_synonym addr = nat

record store =
  vtables :: "addr \<Rightarrow> (string \<rightharpoonup> validator)"
  mtables :: "addr \<Rightarrow> (string \<rightharpoonup> template)"

text \<open>
  Modelled from the spec: the two fields of a Schema that the Property constructor
  reads, \<open>schema.messages\<close> and \<open>schema.validators\<close> (the Schema class is not among the
  sources).
\<close>

record Schema =
  s_messages :: addr
  s_validators :: addr

section \<open>Property\<close>

record entry =
  arg :: jsval
  fn :: "validator option"

record Property =
  name :: string
  registry :: "(string \<times> entry) list"
  p_schema :: Schema
  p_type :: jsval
  messages :: addr
  validators :: addr

record verr =
  err_message :: string
  err_path :: string

definition Property_constructor :: "string \<Rightarrow> Schema \<Rightarrow> Property" where
  "Property_constructor name' schema =
     \<lparr>name = name', registry = [], p_schema = schema, p_type = Null,
      messages = s_messages schema, validators = s_validators schema\<rparr>"

text \<open>
  \<open>this.registry[type] = {arg, fn}\<close>: an existing key keeps its place and gets the new
  value, a new key goes to the end. Assigning the key \<open>__proto__\<close> adds no property: it
  makes the entry the prototype of the registry. The entry is kept in the list under
  that name, where the read \<open>this.registry['__proto__']\<close> finds it; it is not one of
  the keys of the registry, and the registry inherits its two fields \<open>arg\<close> and \<open>fn\<close>.
\<close>

definition Property_register ::
  "Property \<Rightarrow> string \<Rightarrow> jsval \<Rightarrow> validator option \<Rightarrow> Property" where
  "Property_register p type arg' fn' =
     p\<lparr>registry := AList.update type \<lparr>arg = arg', fn = fn'\<rparr> (registry p)\<rparr>"

text \<open>
  \<open>use(fns)\<close>: each own key of \<open>fns\<close> is registered with the argument \<open>null\<close> and the
  value \<open>fns[name]\<close>. A value is a function, or \<open>None\<close> for \<open>null\<close> and \<open>undefined\<close>
  (as in \<open>use({hex})\<close> with \<open>hex\<close> not set).
\<close>

definition Property_use :: "Property \<Rightarrow> (string \<times> validator option) list \<Rightarrow> Property" where
  "Property_use p fns =
     foldl (\<lambda>q name'. Property_register q name' Null
              (case map_of fns name' of None \<Rightarrow> None | Some f \<Rightarrow> f))
       p (Object_keys fns)"

text \<open>\<open>required(bool = true)\<close>: the default applies when the argument is \<open>undefined\<close>.\<close>

definition Property_required :: "Property \<Rightarrow> jsval \<Rightarrow> Property" where
  "Property_required p bool =
     Property_register p ''required'' (if bool = Undefined then Bool True else bool) None"

definition Property_type :: "Property \<Rightarrow> jsval \<Rightarrow> Property" where
  "Property_type p type = Property_register (p\<lparr>p_type := type\<rparr>) ''type'' type None"

definition Property_length :: "Property \<Rightarrow> jsval \<Rightarrow> Property" where
  "Property_length p rules = Property_register p ''length'' rules None"

definition Property_enum :: "Property \<Rightarrow> jsval \<Rightarrow> Property" where
  "Property_enum p enums = Property_register p ''enum'' enums None"

definition Property_match :: "Property \<Rightarrow> jsval \<Rightarrow> Property" where
  "Property_match p regexp = Property_register p ''match'' regexp None"

definition registry_keys :: "Property \<Rightarrow> string list" where
  "registry_keys p = Object_keys (filter (\<lambda>ne. fst ne \<noteq> ''__proto__'') (registry p))"

text \<open>
  The names that a read of the registry finds in its prototype chain when the registry
  has no property of that name.
\<close>

definition registry_inherits :: "Property \<Rightarrow> string \<Rightarrow> bool" where
  "registry_inherits p k =
     (inherited k \<or> ((k = ''arg'' \<or> k = ''fn'') \<and> map_of (registry p) ''__proto__'' \<noteq> None))"

text \<open>
  \<open>_error\<close>: \<open>messages[type] || messages.default\<close>, called when it is a function;
  \<open>new Error(undefined)\<close> has the empty message.
\<close>

definition Property_error :: "Property \<Rightarrow> store \<Rightarrow> string \<Rightarrow> jsval \<Rightarrow> string \<Rightarrow> verr" where
  "Property_error p h type arg' path =
     (let message =
        (case mtables h (messages p) type of
           None \<Rightarrow> mtables h (messages p) ''default''
         | Some t \<Rightarrow> if template_truthy t then Some t else mtables h (messages p) ''default'')
      in \<lparr>err_message =
            (case message of
               None \<Rightarrow> []
             | Some (TStr s) \<Rightarrow> s
             | Some (TFn f) \<Rightarrow> f path arg'),
          err_path = path\<rparr>)"

text \<open>
  \<open>_run\<close> returns \<open>undefined\<close> (here \<open>None\<close>) or the error. Calling \<open>.call\<close> on
  \<open>undefined\<close>, when neither the entry nor the table has a function, is a TypeError.
  The registry is an object literal: for a name that is not registered and that the
  registry inherits, \<open>this.registry[type]\<close> is the inherited value and \<open>_run\<close> goes on
  with it; this is not embedded (\<open>validate\<close> never calls \<open>_run\<close> with such a name).
\<close>

definition Property_run ::
  "Property \<Rightarrow> store \<Rightarrow> string \<Rightarrow> jsval \<Rightarrow> jsval \<Rightarrow> string \<Rightarrow> world
     \<Rightarrow> (exn + verr option) \<times> world" where
  "Property_run p h type value ctx path w =
     (case map_of (registry p) type of
        None \<Rightarrow> if registry_inherits p type then (Inl NotModelled, w) else (Inr None, w)
      | Some e \<Rightarrow>
          (case (case fn e of Some f \<Rightarrow> Some f | None \<Rightarrow> vtables h (validators p) type) of
             None \<Rightarrow> (Inl TypeError, w)
           | Some validator \<Rightarrow>
               (case validator w value ctx (arg e) of
                  (Inl x, w') \<Rightarrow> (Inl x, w')
                | (Inr valid, w') \<Rightarrow>
                    if \<not> truthy valid then (Inr (Some (Property_error p h type (arg e) path)), w')
                    else (Inr None, w'))))"

text \<open>
  \<open>done[type]\<close> for the object literal \<open>done\<close> whose own entries, all set to \<open>true\<close>,
  are the names in \<open>done\<close>: the own entry, or else the inherited member of that name.
\<close>

definition done_get :: "string set \<Rightarrow> string \<Rightarrow> bool" where
  "done_get done type = (type \<in> done \<or> inherited type)"

text \<open>The loop \<open>for (let type of types)\<close> of \<open>validate\<close>, with its \<open>done\<close> table.\<close>

fun validate_rest ::
  "Property \<Rightarrow> store \<Rightarrow> string set \<Rightarrow> string list \<Rightarrow> jsval \<Rightarrow> jsval \<Rightarrow> string \<Rightarrow> world
     \<Rightarrow> (exn + verr option) \<times> world" where
  "validate_rest p h done [] value ctx path w = (Inr None, w)"
| "validate_rest p h done (type # types) value ctx path w =
     (if done_get done type then validate_rest p h done types value ctx path w
      else
        (case Property_run p h type value ctx path w of
           (Inl x, w') \<Rightarrow> (Inl x, w')
         | (Inr (Some error), w') \<Rightarrow> (Inr (Some error), w')
         | (Inr None, w') \<Rightarrow> validate_rest p h done types value ctx path w'))"

text \<open>
  \<open>validate(value, ctx, path = this.name)\<close>: \<open>Inr None\<close> is the result \<open>false\<close>,
  \<open>Inr (Some e)\<close> the returned Error, \<open>Inl x\<close> an exception that leaves \<open>validate\<close>.
\<close>

definition Property_validate ::
  "Property \<Rightarrow> store \<Rightarrow> jsval \<Rightarrow> jsval \<Rightarrow> string option \<Rightarrow> world
     \<Rightarrow> (exn + verr option) \<times> world" where
  "Property_validate p h value ctx path_opt w =
     (let path = (case path_opt of None \<Rightarrow> name p | Some s \<Rightarrow> s);
          types = registry_keys p
      in
        (case Property_run p h ''required'' value ctx path w of
           (Inl x, w1) \<Rightarrow> (Inl x, w1)
         | (Inr (Some error), w1) \<Rightarrow> (Inr (Some error), w1)
         | (Inr None, w1) \<Rightarrow>
             if nullish value then (Inr None, w1)
             else
               (case Property_run p h ''type'' value ctx path w1 of
                  (Inl x, w2) \<Rightarrow> (Inl x, w2)
                | (Inr (Some error), w2) \<Rightarrow> (Inr (Some error), w2)
                | (Inr None, w2) \<Rightarrow>
                    validate_rest p h {''required'', ''type''} types value ctx path w2)))"

section \<open>The checks and their order, in words\<close>

text \<open>
  One check, of the name \<open>n\<close>: a name that is not registered does nothing. For a
  registered name the validator is the function registered with it, or else the one
  the schema's table has for the name; it is called once, with the value, the context
  and the registered argument. A truthy result passes; a falsy one fails, with the error
  built for the name, its argument and the path. Without a function to call, the check
  raises a TypeError.
\<close>

definition check ::
  "Property \<Rightarrow> store \<Rightarrow> string \<Rightarrow> jsval \<Rightarrow> jsval \<Rightarrow> string \<Rightarrow> world
     \<Rightarrow> (exn + verr option) \<times> world" where
  "check p h n value ctx path w =
     (case map_of (registry p) n of
        None \<Rightarrow> (Inr None, w)
      | Some e \<Rightarrow>
          (case (if fn e = None then vtables h (validators p) n else fn e) of
             None \<Rightarrow> (Inl TypeError, w)
           | Some f \<Rightarrow>
               (case f w value ctx (arg e) of
                  (Inl x, w') \<Rightarrow> (Inl x, w')
                | (Inr r, w') \<Rightarrow>
                    (if truthy r then Inr None
                     else Inr (Some (Property_error p h n (arg e) path)), w'))))"

text \<open>
  The schedule: \<open>required\<close>; nothing more for a null or undefined value; otherwise
  \<open>type\<close>, then the other registered names in the order of \<open>Object.keys\<close>, except the
  names of members of \<open>Object.prototype\<close>.
\<close>

definition validate_order :: "Property \<Rightarrow> jsval \<Rightarrow> string list" where
  "validate_order p value =
     (if nullish value then [''required'']
      else ''required'' # ''type'' #
           filter (\<lambda>n. n \<noteq> ''required'' \<and> n \<noteq> ''type'' \<and> \<not> inherited n)
             (registry_keys p))"

text \<open>Running the checks of a list one after the other, up to the first that does not pass.\<close>

fun run_in_order ::
  "Property \<Rightarrow> store \<Rightarrow> string list \<Rightarrow> jsval \<Rightarrow> jsval \<Rightarrow> string \<Rightarrow> world
     \<Rightarrow> (exn + verr option) \<times> world" where
  "run_in_order p h [] value ctx path w = (Inr None, w)"
| "run_in_order p h (n # ns) value ctx path w =
     (case check p h n value ctx path w of
        (Inl x, w') \<Rightarrow> (Inl x, w')
      | (Inr (Some error), w') \<Rightarrow> (Inr (Some error), w')
      | (Inr None, w') \<Rightarrow> run_in_order p h ns value ctx path w')"

text \<open>
  Running every check of a list whatever the earlier ones returned: the outcome of each
  check, the aggregate that \<open>validate\<close> does not build.
\<close>

fun run_each ::
  "Property \<Rightarrow> store \<Rightarrow> string list \<Rightarrow> jsval \<Rightarrow> jsval \<Rightarrow> string \<Rightarrow> world
     \<Rightarrow> (exn + verr option) list" where
  "run_each p h [] value ctx path w = []"
| "run_each p h (n # ns) value ctx path w =
     (case check p h n value ctx path w of
        (r, w') \<Rightarrow> r # run_each p h ns value ctx path w')"

definition path_of :: "Property \<Rightarrow> string option \<Rightarrow> string" where
  "path_of p path_opt = (case path_opt of None \<Rightarrow> name p | Some s \<Rightarrow> s)"

section \<open>Sequences of builder calls\<close>

text \<open>
  A property is configured by a chain of builder calls
  (\<open>prop.required().type('string').length({min: 1})\<close>, \<open>prop.use({...})\<close>).
\<close>

datatype builder =
    BRequired jsval
  | BType jsval
  | BLength jsval
  | BEnum jsval
  | BMatch jsval
  | BUse "(string \<times> validator option) list"

fun apply_builder :: "Property \<Rightarrow> builder \<Rightarrow> Property" where
  "apply_builder p (BRequired b) = Property_required p b"
| "apply_builder p (BType t) = Property_type p t"
| "apply_builder p (BLength r) = Property_length p r"
| "apply_builder p (BEnum e) = Property_enum p e"
| "apply_builder p (BMatch r) = Property_match p r"
| "apply_builder p (BUse fns) = Property_use p fns"

definition build :: "Property \<Rightarrow> builder list \<Rightarrow> Property" where
  "build p bs = foldl apply_builder p bs"

text \<open>
  What a builder call registers, in words: \<open>required\<close>, \<open>type\<close>, \<open>length\<close>, \<open>enum\<close> and
  \<open>match\<close> register their own name with the argument given (\<open>true\<close> for a \<open>required\<close>
  without argument) and no function; \<open>use\<close> registers every key of its object with the
  argument \<open>null\<close> and the value of the key as the function.
\<close>

fun builder_names :: "builder \<Rightarrow> string list" where
  "builder_names (BRequired _) = [''required'']"
| "builder_names (BType _) = [''type'']"
| "builder_names (BLength _) = [''length'']"
| "builder_names (BEnum _) = [''enum'']"
| "builder_names (BMatch _) = [''match'']"
| "builder_names (BUse fns) = map fst fns"

fun builder_entry :: "builder \<Rightarrow> string \<Rightarrow> entry" where
  "builder_entry (BRequired b) n = \<lparr>arg = (if b = Undefined then Bool True else b), fn = None\<rparr>"
| "builder_entry (BType t) n = \<lparr>arg = t, fn = None\<rparr>"
| "builder_entry (BLength r) n = \<lparr>arg = r, fn = None\<rparr>"
| "builder_entry (BEnum e) n = \<lparr>arg = e, fn = None\<rparr>"
| "builder_entry (BMatch r) n = \<lparr>arg = r, fn = None\<rparr>"
| "builder_entry (BUse fns) n =
     \<lparr>arg = Null, fn = (case map_of fns n of None \<Rightarrow> None | Some f \<Rightarrow> f)\<rparr>"

text \<open>The builders \<open>type\<close>, \<open>length\<close>, \<open>enum\<close> and \<open>match\<close>.\<close>

fun rule_builder :: "builder \<Rightarrow> bool" where
  "rule_builder (BType _) = True"
| "rule_builder (BLength _) = True"
| "rule_builder (BEnum _) = True"
| "rule_builder (BMatch _) = True"
| "rule_builder _ = False"

section \<open>The schema's side\<close>

text \<open>
  Modelled from the spec: \<open>schema.validator(name, fn)\<close> and
  \<open>schema.message(name, template)\<close>, which merge one entry into the schema-level
  table (the Schema class is not among the sources). They write the table at the
  schema's address.
\<close>

definition Schema_validator :: "Schema \<Rightarrow> string \<Rightarrow> validator \<Rightarrow> store \<Rightarrow> store" where
  "Schema_validator S n f h =
     h\<lparr>vtables := (vtables h)(s_validators S := (vtables h (s_validators S))(n \<mapsto> f))\<rparr>"

definition Schema_message :: "Schema \<Rightarrow> string \<Rightarrow> template \<Rightarrow> store \<Rightarrow> store" where
  "Schema_message S n t h =
     h\<lparr>mtables := (mtables h)(s_messages S := (mtables h (s_messages S))(n \<mapsto> t))\<rparr>"






section \<open>A schema to compute with\<close>

definition schema0 :: Schema where
  "schema0 = \<lparr>s_messages = 0, s_validators = 1\<rparr>"

definition messages0 :: "string \<rightharpoonup> template" where
  "messages0 =
     [''required'' \<mapsto> TFn (\<lambda>path a. path @ '' is required''),
      ''default'' \<mapsto> TFn (\<lambda>path a. ''Validation failed for '' @ path)]"

definition store0 :: store where
  "store0 = \<lparr>vtables = (\<lambda>_. Map.empty)(1 := Validators),
             mtables = (\<lambda>_. Map.empty)(0 := messages0)\<rparr>"

definition world0 :: world where
  "world0 = \<lparr>vars = (\<lambda>_. Undefined), lastIndex = (\<lambda>_. 0)\<rparr>"

text \<open>\<open>length\<close> is registered first, \<open>required\<close> last.\<close>

definition title_prop :: Property where
  "title_prop =
     build (Property_constructor ''title'' schema0)
       [BLength (Obj [(''min'', Num 1), (''max'', Num 5)]), BType (Str ''string''),
        BRequired Undefined]"

text \<open>
  Validators that append their tag to the array in the variable \<open>log\<close>; \<open>logging\<close>
  passes, \<open>failing\<close> fails. \<open>rejecting\<close> fails and leaves no trace.
\<close>

definition logged :: "string \<Rightarrow> world \<Rightarrow> world" where
  "logged tag w =
     w\<lparr>vars := (vars w)(''log'' := Arr ((case vars w ''log'' of Arr xs \<Rightarrow> xs | _ \<Rightarrow> []) @ [Str tag]))\<rparr>"

definition logging :: "string \<Rightarrow> validator" where
  "logging tag w value ctx a = (Inr (Bool True), logged tag w)"

definition failing :: "string \<Rightarrow> validator" where
  "failing tag w value ctx a = (Inr (Bool False), logged tag w)"

definition rejecting :: validator where
  "rejecting = stateless (\<lambda>value ctx a. Inr (Bool False))"

definition logged_prop :: Property where
  "logged_prop =
     build (Property_constructor ''x'' schema0)
       [BUse [(''b'', Some (logging ''b'')), (''type'', Some (logging ''type''))],
        BUse [(''a'', Some (logging ''a'')), (''required'', Some (logging ''required'')),
              (''b'', Some (logging ''b again''))]]"

text \<open>The same with a \<open>type\<close> that fails, and with a \<open>required\<close> that fails.\<close>

definition type_fails_prop :: Property where
  "type_fails_prop = Property_use logged_prop [(''type'', Some (failing ''type''))]"

definition required_fails_prop :: Property where
  "required_fails_prop = Property_use logged_prop [(''required'', Some (failing ''required''))]"

text \<open>
  \<open>use({b: ...})\<close>, then \<open>use({'10': ...})\<close>, then \<open>use({'9': ...})\<close>; and
  \<open>use({valueOf: ...})\<close> with a validator that rejects every value.
\<close>

definition index_prop :: Property where
  "index_prop =
     build (Property_constructor ''x'' schema0)
       [BUse [(''b'', Some (logging ''b''))], BUse [(''10'', Some (logging ''10''))],
        BUse [(''9'', Some (logging ''9''))]]"

definition valueOf_prop :: Property where
  "valueOf_prop =
     Property_use (Property_constructor ''x'' schema0) [(''valueOf'', Some (failing ''valueOf''))]"

definition toString_prop :: Property where
  "toString_prop =
     Property_use (Property_constructor ''x'' schema0) [(''toString'', Some rejecting)]"

text \<open>
  \<open>use({hex: undefined})\<close> on a schema whose validators table has no \<open>hex\<close>: the name
  is registered without a function of its own. And \<open>hex\<close> registered through \<open>use\<close>
  with a function that rejects every value.
\<close>

definition hex_prop :: Property where
  "hex_prop = Property_use (Property_constructor ''x'' schema0) [(''hex'', None)]"

definition hex_fails_prop :: Property where
  "hex_fails_prop =
     Property_use (Property_constructor ''x'' schema0)
       [(''hex'', Some (stateless (\<lambda>value ctx a. Inr (Bool False))))]"




section \<open>Facts about the embedding\<close>

lemmas builder_defs =
  build_def Property_required_def Property_type_def Property_length_def Property_enum_def
  Property_match_def Property_use_def Property_register_def Property_constructor_def

lemmas keys_defs = registry_keys_def Object_keys_def own_keys_def array_index_def digit_of_def

lemmas inherited_defs = registry_inherits_def inherited_def Object_prototype_names_def

lemma not_inherited_required_type [simp]:
  "\<not> inherited ''required''" "\<not> inherited ''type''"
  by (simp_all add: inherited_defs)

lemma set_own_keys: "set (own_keys fs) = fst ` set fs"
  by (simp add: own_keys_def)

lemma distinct_own_keys: "distinct (own_keys fs)"
  by (simp add: own_keys_def)

lemma own_keys_distinct: "distinct (map fst fs) \<Longrightarrow> own_keys fs = map fst fs"
  by (simp add: own_keys_def distinct_remdups_id rev_map [symmetric] del: rev_map)

lemma set_Object_keys: "set (Object_keys fs) = fst ` set fs"
  by (auto simp: Object_keys_def set_own_keys)

lemma distinct_Object_keys: "distinct (Object_keys fs)"
  by (auto simp: Object_keys_def distinct_own_keys)

lemma set_registry_keys: "set (registry_keys p) \<subseteq> fst ` set (registry p)"
  by (auto simp: registry_keys_def set_Object_keys)

lemma distinct_registry_keys: "distinct (registry_keys p)"
  by (simp add: registry_keys_def distinct_Object_keys)

lemma Property_run_check:
  "map_of (registry p) n \<noteq> None \<or> \<not> registry_inherits p n \<Longrightarrow>
     Property_run p h n value ctx path w = check p h n value ctx path w"
  by (auto simp: Property_run_def check_def split: option.splits prod.splits sum.splits)

lemma validate_rest_filter:
  "set types \<subseteq> fst ` set (registry p) \<Longrightarrow>
   validate_rest p h done types value ctx path w =
   run_in_order p h (filter (\<lambda>n. \<not> done_get done n) types) value ctx path w"
proof (induction types arbitrary: w)
  case Nil
  then show ?case by simp
next
  case (Cons n ns)
  then have "map_of (registry p) n \<noteq> None"
    by (simp add: map_of_eq_None_iff)
  then have "Property_run p h n value ctx path w = check p h n value ctx path w" for w
    by (simp add: Property_run_check)
  with Cons show ?case
    by (auto split: prod.splits sum.splits option.splits)
qed

lemma validate_run_in_order:
  "Property_validate p h value ctx po w =
   run_in_order p h (validate_order p value) value ctx (path_of p po) w"
proof -
  have "filter (\<lambda>n. \<not> done_get {''required'', ''type''} n) ks =
      filter (\<lambda>n. n \<noteq> ''required'' \<and> n \<noteq> ''type'' \<and> \<not> inherited n) ks" for ks
    by (rule filter_cong) (auto simp: done_get_def)
  moreover have "\<not> registry_inherits p ''required''" "\<not> registry_inherits p ''type''"
    by (simp_all add: registry_inherits_def)
  ultimately show ?thesis
    by (auto simp: Property_validate_def validate_order_def path_of_def
        validate_rest_filter [OF set_registry_keys]
        Property_run_check Let_def split: prod.splits sum.splits option.splits)
qed

lemma distinct_validate_order: "distinct (validate_order p value)"
  by (auto simp: validate_order_def distinct_registry_keys)

section \<open>The default validators\<close>

text \<open>
  C9. The \<open>nonempty\<close> validator passes whenever its argument is \<open>false\<close>. With any
  other argument it fails exactly on the empty string, the empty array, the object
  without own keys, \<open>null\<close> and \<open>undefined\<close>, and passes on every other value.
\<close>

theorem nonempty_fails_exactly:
  "Validators_nonempty value ctx a =
     Inr (Bool (if a = Bool False then True
                else (case value of
                        Str s \<Rightarrow> s \<noteq> []
                      | Arr xs \<Rightarrow> xs \<noteq> []
                      | Obj fs \<Rightarrow> Object_keys fs \<noteq> []
                      | Undefined \<Rightarrow> False
                      | Null \<Rightarrow> False
                      | _ \<Rightarrow> True)))"
  by (cases "value") (auto simp: Validators_nonempty_def js_less_def builtin_prop_def)

theorem nonempty_fails_exactly_witness:
  "Validators_nonempty (Str []) Null (Bool True) = Inr (Bool False)
   \<and> Validators_nonempty (Obj []) Null Undefined = Inr (Bool False)
   \<and> Validators_nonempty Null Null (Bool True) = Inr (Bool False)
   \<and> Validators_nonempty (Arr []) Null (Bool False) = Inr (Bool True)
   \<and> Validators_nonempty (Num 0) Null (Bool True) = Inr (Bool True)
   \<and> Validators_nonempty (Obj [(''k'', Null)]) Null (Bool True) = Inr (Bool True)"
  using nonempty_fails_exactly [of "Str []" Null "Bool True"]
    nonempty_fails_exactly [of "Obj []" Null Undefined]
    nonempty_fails_exactly [of Null Null "Bool True"]
    nonempty_fails_exactly [of "Arr []" Null "Bool False"]
    nonempty_fails_exactly [of "Num 0" Null "Bool True"]
    nonempty_fails_exactly [of "Obj [(''k'', Null)]" Null "Bool True"]
  by (simp add: keys_defs)

text \<open>
  The \<open>length\<close> validator on a string or an array with numeric bounds: a bound is
  enforced when it is present and not 0.
\<close>

lemma length_enforced_bounds:
  assumes "value = Str s \<and> n = length s \<or> value = Arr xs \<and> n = length xs"
    and "get_prop rules ''min'' = Inr lo" and "lo = Undefined \<or> (\<exists>i. lo = Num i)"
    and "get_prop rules ''max'' = Inr hi" and "hi = Undefined \<or> (\<exists>i. hi = Num i)"
  shows "Validators_length value ctx rules =
     Inr (Bool (\<not> ((\<exists>i. lo = Num i \<and> i \<noteq> 0 \<and> int n < i) \<or> (\<exists>i. hi = Num i \<and> i \<noteq> 0 \<and> i < int n))))"
  using assms by (auto simp: Validators_length_def js_less_def builtin_prop_def)

text \<open>
  C7. The \<open>length\<close> validator is to fail when the length of the value is above the
  provided \<open>max\<close>. With \<open>max: 0\<close> the guard \<open>max && ...\<close> is false and the bound is not
  enforced: the string \<open>abc\<close> passes \<open>length({max: 0})\<close>.
\<close>

theorem length_max_zero_not_enforced:
  "Validators_length (Str ''abc'') Null (Obj [(''max'', Num 0)]) = Inr (Bool True)"
  by (simp add: Validators_length_def js_less_def builtin_prop_def inherited_defs)

section \<open>The order of evaluation\<close>

lemma run_in_order_append:
  "run_in_order p h (ns1 @ ns2) value ctx path w =
     (case run_in_order p h ns1 value ctx path w of
        (Inr None, w1) \<Rightarrow> run_in_order p h ns2 value ctx path w1
      | r \<Rightarrow> r)"
  by (induction ns1 arbitrary: w) (auto split: prod.splits sum.splits option.splits)

lemma check_error:
  "check p h n value ctx path w = (Inr (Some e), w')
   \<Longrightarrow> \<exists>en. map_of (registry p) n = Some en \<and> e = Property_error p h n (arg en) path"
  by (auto simp: check_def split: option.splits prod.splits sum.splits if_splits)

lemma Property_run_error:
  "Property_run p h n value ctx path w = (Inr (Some e), w')
   \<Longrightarrow> \<exists>en. map_of (registry p) n = Some en \<and> e = Property_error p h n (arg en) path"
  by (auto simp: Property_run_def split: option.splits prod.splits sum.splits if_splits)

lemma run_in_order_error:
  "run_in_order p h ns value ctx path w = (Inr (Some e), w')
   \<Longrightarrow> \<exists>n\<in>set ns. \<exists>en. map_of (registry p) n = Some en \<and> e = Property_error p h n (arg en) path"
proof (induction ns arbitrary: w)
  case Nil
  then show ?case by simp
next
  case (Cons n ns)
  then show ?case
    by (auto split: prod.splits sum.splits option.splits dest: check_error)
qed

lemma run_in_order_find:
  "fst (run_in_order p h ns value ctx path w) =
     (case find (\<lambda>r. r \<noteq> Inr None) (run_each p h ns value ctx path w) of
        None \<Rightarrow> Inr None | Some r \<Rightarrow> r)"
  by (induction ns arbitrary: w) (auto split: prod.splits sum.splits option.splits)

lemma err_path_Property_error: "err_path (Property_error p h n a path) = path"
  by (simp add: Property_error_def Let_def)

text \<open>
  C1 as stated: the registered validators other than \<open>required\<close> and \<open>type\<close> run in
  registration order. After \<open>use({b})\<close>, \<open>use({'10'})\<close>, \<open>use({'9'})\<close> the validators
  run in the order 9, 10, b.
\<close>

theorem registration_order_counterexample:
  "map fst (registry index_prop) = [''b'', ''10'', ''9'']
   \<and> Property_validate index_prop store0 (Num 1) Null None world0 =
       (Inr None,
        world0\<lparr>vars := (vars world0)(''log'' := Arr [Str ''9'', Str ''10'', Str ''b''])\<rparr>)"
  by (simp add: index_prop_def builder_defs keys_defs Property_validate_def
      Property_run_def done_get_def inherited_defs store0_def schema0_def Let_def
      logging_def logged_def world0_def)

text \<open>
  C1, amended. \<open>validate\<close> runs the checks of the schedule one after the other and
  stops at the first that does not pass: \<open>required\<close> first; nothing more when the
  value is \<open>null\<close> or \<open>undefined\<close>; otherwise \<open>type\<close>, then the other registered names
  that are not names of members of \<open>Object.prototype\<close>, in the order of \<open>Object.keys\<close>
  (array indices ascending, then the rest in order of first registration). No name
  occurs twice in the schedule, \<open>required\<close> occurs once, and \<open>type\<close> once whenever the
  value is not null. When the validator of \<open>required\<close> returns a falsy value,
  \<open>validate\<close> returns the error of \<open>required\<close> and the world is as that one call left
  it.
\<close>

theorem validate_evaluation_order:
  "Property_validate p h value ctx po w =
     run_in_order p h (validate_order p value) value ctx (path_of p po) w
   \<and> validate_order p value =
       (if nullish value then [''required'']
        else ''required'' # ''type'' #
             filter (\<lambda>n. n \<noteq> ''required'' \<and> n \<noteq> ''type'' \<and> \<not> inherited n)
               (registry_keys p))
   \<and> distinct (validate_order p value)
   \<and> count_list (validate_order p value) ''required'' = 1
   \<and> count_list (validate_order p value) ''type'' = (if nullish value then 0 else 1)
   \<and> (\<forall>e f r w'.
         map_of (registry p) ''required'' = Some e
         \<and> (if fn e = None then vtables h (validators p) ''required'' else fn e) = Some f
         \<and> f w value ctx (arg e) = (Inr r, w') \<and> \<not> truthy r
         \<longrightarrow> Property_validate p h value ctx po w =
               (Inr (Some (Property_error p h ''required'' (arg e) (path_of p po))), w'))"
proof -
  have counts:
    "count_list (filter (\<lambda>n. n \<noteq> ''required'' \<and> n \<noteq> ''type'' \<and> \<not> inherited n) ns) ''required'' = 0"
    "count_list (filter (\<lambda>n. n \<noteq> ''required'' \<and> n \<noteq> ''type'' \<and> \<not> inherited n) ns) ''type'' = 0"
    for ns :: "string list"
    by (simp_all add: count_list_0_iff)
  have first: "Property_validate p h value ctx po w =
               (Inr (Some (Property_error p h ''required'' (arg e) (path_of p po))), w')"
    if "map_of (registry p) ''required'' = Some e"
      and "(if fn e = None then vtables h (validators p) ''required'' else fn e) = Some f"
      and "f w value ctx (arg e) = (Inr r, w')" and "\<not> truthy r" for e f r w'
    using that by (simp add: validate_run_in_order validate_order_def check_def)
  show ?thesis
    using first
    by (simp add: validate_run_in_order distinct_validate_order)
      (simp add: validate_order_def counts)
qed

theorem validate_evaluation_order_witness:
  "validate_order logged_prop (Num 1) = [''required'', ''type'', ''b'', ''a'']
   \<and> Property_validate logged_prop store0 (Num 1) Null None world0 =
       (Inr None,
        world0\<lparr>vars := (vars world0)
          (''log'' := Arr [Str ''required'', Str ''type'', Str ''b again'', Str ''a''])\<rparr>)
   \<and> Property_validate logged_prop store0 Null Null None world0 =
       (Inr None, world0\<lparr>vars := (vars world0)(''log'' := Arr [Str ''required''])\<rparr>)
   \<and> Property_validate type_fails_prop store0 (Num 1) Null None world0 =
       (Inr (Some \<lparr>err_message = ''Validation failed for x'', err_path = ''x''\<rparr>),
        world0\<lparr>vars := (vars world0)(''log'' := Arr [Str ''required'', Str ''type''])\<rparr>)
   \<and> Property_validate required_fails_prop store0 (Num 1) Null None world0 =
       (Inr (Some \<lparr>err_message = ''x is required'', err_path = ''x''\<rparr>),
        world0\<lparr>vars := (vars world0)(''log'' := Arr [Str ''required''])\<rparr>)"
proof -
  note defs = logged_prop_def type_fails_prop_def required_fails_prop_def builder_defs keys_defs
    inherited_defs check_def path_of_def store0_def schema0_def logging_def failing_def
    logged_def world0_def Property_error_def messages0_def Let_def
  have 1: "validate_order logged_prop (Num 1) = [''required'', ''type'', ''b'', ''a'']"
    "validate_order logged_prop Null = [''required'']"
    "validate_order type_fails_prop (Num 1) = [''required'', ''type'', ''b'', ''a'']"
    "validate_order required_fails_prop (Num 1) = [''required'', ''type'', ''b'', ''a'']"
    by (simp_all add: validate_order_def defs)
  have 2: "map_of (registry required_fails_prop) ''required''
      = Some \<lparr>arg = Null, fn = Some (failing ''required'')\<rparr>"
    by (simp add: defs)
  have 3: "failing ''required'' world0 (Num 1) Null Null = (Inr (Bool False), logged ''required'' world0)"
    by (simp add: failing_def)
  from validate_evaluation_order [of required_fails_prop store0 "Num 1" Null None world0,
      THEN conjunct2, THEN conjunct2, THEN conjunct2, THEN conjunct2, THEN conjunct2,
      THEN spec, THEN spec, THEN spec, THEN spec, THEN mp, of _ "failing ''required''"
      "Bool False" "logged ''required'' world0"] 2 3
  have 4: "Property_validate required_fails_prop store0 (Num 1) Null None world0 =
       (Inr (Some \<lparr>err_message = ''x is required'', err_path = ''x''\<rparr>),
        world0\<lparr>vars := (vars world0)(''log'' := Arr [Str ''required''])\<rparr>)"
    by (simp add: defs)
  show ?thesis
    using validate_evaluation_order [of logged_prop store0 "Num 1" Null None world0, THEN conjunct1]
      validate_evaluation_order [of logged_prop store0 Null Null None world0, THEN conjunct1]
      validate_evaluation_order [of type_fails_prop store0 "Num 1" Null None world0, THEN conjunct1]
      4
    by (simp add: 1) (simp add: defs)
qed

text \<open>
  C3. On the first failing check \<open>validate\<close> is to return an error. The loop over the
  registered names skips those for which \<open>done[type]\<close> is truthy, and \<open>done\<close>, an object
  literal made to hold \<open>required\<close> and \<open>type\<close>, inherits the members of
  \<open>Object.prototype\<close>. So the validator registered by \<open>use({toString})\<close>, which fails
  on the value, is skipped and \<open>validate\<close> returns \<open>false\<close>; and the one registered by
  \<open>use({valueOf})\<close>, which would fail and leave its tag in the log, is not called.
\<close>

theorem prototype_named_validator_skipped:
  "map_of (registry toString_prop) ''toString'' = Some \<lparr>arg = Null, fn = Some rejecting\<rparr>
   \<and> rejecting world0 (Str ''ff'') Null Null = (Inr (Bool False), world0)
   \<and> Property_validate toString_prop store0 (Str ''ff'') Null None world0 = (Inr None, world0)
   \<and> map fst (registry valueOf_prop) = [''valueOf'']
   \<and> Property_validate valueOf_prop store0 (Num 1) Null None world0 = (Inr None, world0)"
  by (simp add: toString_prop_def valueOf_prop_def builder_defs keys_defs Property_validate_def
      Property_run_def done_get_def inherited_defs store0_def schema0_def Let_def
      rejecting_def failing_def logged_def stateless_def world0_def)

text \<open>
  What \<open>validate\<close> returns, for the checks it does schedule: \<open>false\<close> when every check
  of the schedule passes, and otherwise the outcome of the first scheduled check that
  does not pass. A returned error is a single one: it carries the path of the call and
  is the error built for one registered name of the schedule from that name's
  argument.
\<close>

theorem validate_first_failure:
  "fst (Property_validate p h value ctx po w) =
     (case find (\<lambda>r. r \<noteq> Inr None)
             (run_each p h (validate_order p value) value ctx (path_of p po) w) of
        None \<Rightarrow> Inr None | Some r \<Rightarrow> r)
   \<and> (\<forall>e. fst (Property_validate p h value ctx po w) = Inr (Some e) \<longrightarrow>
          err_path e = path_of p po
          \<and> (\<exists>n\<in>set (validate_order p value). \<exists>en.
                map_of (registry p) n = Some en
                \<and> e = Property_error p h n (arg en) (path_of p po)))"
proof -
  have "err_path e = path_of p po
          \<and> (\<exists>n\<in>set (validate_order p value). \<exists>en.
                map_of (registry p) n = Some en
                \<and> e = Property_error p h n (arg en) (path_of p po))"
    if "fst (Property_validate p h value ctx po w) = Inr (Some e)" for e
  proof -
    have "run_in_order p h (validate_order p value) value ctx (path_of p po) w
        = (Inr (Some e), snd (Property_validate p h value ctx po w))"
      using that by (simp add: validate_run_in_order prod_eq_iff)
    from run_in_order_error [OF this] show ?thesis
      by (auto simp: err_path_Property_error)
  qed
  then show ?thesis
    by (simp add: validate_run_in_order run_in_order_find)
qed

theorem validate_first_failure_witness:
  "fst (Property_validate title_prop store0 (Str ''ab'') Null None world0) = Inr None
   \<and> fst (Property_validate title_prop store0 (Str ''abcdefg'') Null None world0) =
       Inr (Some \<lparr>err_message = ''Validation failed for title'', err_path = ''title''\<rparr>)
   \<and> fst (Property_validate title_prop store0 Null Null None world0) =
       Inr (Some \<lparr>err_message = ''title is required'', err_path = ''title''\<rparr>)
   \<and> fst (Property_validate hex_fails_prop store0 (Str ''zz'') Null None world0) =
       Inr (Some \<lparr>err_message = ''Validation failed for x'', err_path = ''x''\<rparr>)
   \<and> (\<exists>n\<in>set [''required'', ''type'', ''length'']. \<exists>en.
         map_of (registry title_prop) n = Some en
         \<and> \<lparr>err_message = ''Validation failed for title'', err_path = ''title''\<rparr>
             = Property_error title_prop store0 n (arg en) ''title'')"
proof -
  note defs = title_prop_def hex_fails_prop_def builder_defs keys_defs inherited_defs
  have order: "validate_order title_prop (Str s) = [''required'', ''type'', ''length'']"
    "validate_order title_prop Null = [''required'']"
    "validate_order hex_fails_prop (Str s) = [''required'', ''type'', ''hex'']" for s
    by (simp_all add: defs validate_order_def)
  have path: "path_of title_prop None = ''title''" "path_of hex_fails_prop None = ''x''"
    by (simp_all add: defs path_of_def)
  have run: "check title_prop store0 ''required'' (Str s) Null ''title'' world0 = (Inr None, world0)"
    "check title_prop store0 ''type'' (Str s) Null ''title'' world0 = (Inr None, world0)"
    "check title_prop store0 ''length'' (Str ''ab'') Null ''title'' world0 = (Inr None, world0)"
    "check title_prop store0 ''length'' (Str ''abcdefg'') Null ''title'' world0 =
       (Inr (Some \<lparr>err_message = ''Validation failed for title'', err_path = ''title''\<rparr>), world0)"
    "check title_prop store0 ''required'' Null Null ''title'' world0 =
       (Inr (Some \<lparr>err_message = ''title is required'', err_path = ''title''\<rparr>), world0)"
    "check hex_fails_prop store0 ''required'' (Str s) Null ''x'' world0 = (Inr None, world0)"
    "check hex_fails_prop store0 ''type'' (Str s) Null ''x'' world0 = (Inr None, world0)"
    "check hex_fails_prop store0 ''hex'' (Str s) Null ''x'' world0 =
       (Inr (Some \<lparr>err_message = ''Validation failed for x'', err_path = ''x''\<rparr>), world0)" for s
    by (simp_all add: defs check_def store0_def schema0_def Validators_def stateless_def
      Validators_required_def Validators_type_def Validators_length_def js_less_def
      builtin_prop_def Property_error_def messages0_def Let_def)
  have res: "fst (Property_validate title_prop store0 (Str ''ab'') Null None world0) = Inr None"
    "fst (Property_validate title_prop store0 (Str ''abcdefg'') Null None world0) =
       Inr (Some \<lparr>err_message = ''Validation failed for title'', err_path = ''title''\<rparr>)"
    "fst (Property_validate title_prop store0 Null Null None world0) =
       Inr (Some \<lparr>err_message = ''title is required'', err_path = ''title''\<rparr>)"
    "fst (Property_validate hex_fails_prop store0 (Str ''zz'') Null None world0) =
       Inr (Some \<lparr>err_message = ''Validation failed for x'', err_path = ''x''\<rparr>)"
    using validate_first_failure [of title_prop store0 "Str ''ab''" Null None world0, THEN conjunct1]
      validate_first_failure [of title_prop store0 "Str ''abcdefg''" Null None world0, THEN conjunct1]
      validate_first_failure [of title_prop store0 Null Null None world0, THEN conjunct1]
      validate_first_failure [of hex_fails_prop store0 "Str ''zz''" Null None world0, THEN conjunct1]
    by (simp_all add: order path run)
  from validate_first_failure [of title_prop store0 "Str ''abcdefg''" Null None world0,
      THEN conjunct2, THEN spec, THEN mp, OF res(2)]
  have "\<exists>n\<in>set [''required'', ''type'', ''length'']. \<exists>en.
         map_of (registry title_prop) n = Some en
         \<and> \<lparr>err_message = ''Validation failed for title'', err_path = ''title''\<rparr>
             = Property_error title_prop store0 n (arg en) ''title''"
    by (simp only: order path)
  with res show ?thesis by simp
qed

section \<open>Names without a function\<close>

text \<open>
  C2 as stated: an entry registered without a function of its own, whose name the
  validators table does not have, is skipped. It is not: \<open>validate\<close> raises a TypeError.
\<close>

theorem unknown_validator_counterexample:
  "map_of (registry hex_prop) ''hex'' = Some \<lparr>arg = Null, fn = None\<rparr>
   \<and> vtables store0 (validators hex_prop) ''hex'' = None
   \<and> Property_validate hex_prop store0 (Str ''ff'') Null None world0 = (Inl TypeError, world0)"
  by (simp add: hex_prop_def builder_defs keys_defs store0_def schema0_def Validators_def
      inherited_defs done_get_def Property_validate_def Property_run_def)

text \<open>
  C2, amended. A name that is not in the registry of the property, and that the
  registry does not inherit (as it does the names of the members of
  \<open>Object.prototype\<close>), is skipped: running it calls nothing and returns no error. A registry entry without a function of its own, for whose name a read of
  the validators table gives \<open>undefined\<close>, raises a TypeError when it is run; and
  \<open>validate\<close> raises it when that name is scheduled and the checks scheduled before it
  have passed.
\<close>

theorem unknown_validator_raises:
  "(map_of (registry p) n = None \<and> \<not> registry_inherits p n
      \<longrightarrow> Property_run p h n value ctx path w = (Inr None, w))
   \<and> (map_of (registry p) n = Some e \<and> fn e = None \<and> vtables h (validators p) n = None
        \<longrightarrow> Property_run p h n value ctx path w = (Inl TypeError, w)
          \<and> (validate_order p value = ns1 @ n # ns2
               \<and> run_in_order p h ns1 value ctx (path_of p po) w = (Inr None, w1)
               \<longrightarrow> Property_validate p h value ctx po w = (Inl TypeError, w1)))"
  by (simp add: Property_run_def validate_run_in_order run_in_order_append check_def)

theorem unknown_validator_raises_witness:
  "Property_run hex_prop store0 ''match'' (Str ''ff'') Null ''x'' world0 = (Inr None, world0)
   \<and> Property_run hex_prop store0 ''hex'' (Str ''ff'') Null ''x'' world0 = (Inl TypeError, world0)
   \<and> Property_validate hex_prop store0 (Str ''ff'') Null None world0 = (Inl TypeError, world0)"
proof -
  note defs = hex_prop_def builder_defs keys_defs inherited_defs store0_def schema0_def
    Validators_def
  have e: "map_of (registry hex_prop) ''hex'' = Some \<lparr>arg = Null, fn = None\<rparr>"
    "map_of (registry hex_prop) ''match'' = None" "\<not> registry_inherits hex_prop ''match''"
    "vtables store0 (validators hex_prop) ''hex'' = None"
    "validate_order hex_prop (Str ''ff'') = [''required'', ''type''] @ ''hex'' # []"
    "run_in_order hex_prop store0 [''required'', ''type''] (Str ''ff'') Null (path_of hex_prop None)
       world0 = (Inr None, world0)"
    by (simp_all add: defs validate_order_def check_def)
  from unknown_validator_raises [of hex_prop "''match''" store0 "Str ''ff''" Null "''x''" world0
      "\<lparr>arg = Null, fn = None\<rparr>" "[]" "[]" None world0]
    unknown_validator_raises [of hex_prop "''hex''" store0 "Str ''ff''" Null "''x''" world0
      "\<lparr>arg = Null, fn = None\<rparr>" "[''required'', ''type'']" "[]" None world0] e
  show ?thesis by simp
qed

lemma registry_register:
  "map_of (registry (Property_register p n a f)) =
     (map_of (registry p))(n \<mapsto> \<lparr>arg = a, fn = f\<rparr>)"
  by (simp add: Property_register_def update_conv')

lemma validators_register [simp]: "validators (Property_register p n a f) = validators p"
  and messages_register [simp]: "messages (Property_register p n a f) = messages p"
  and name_register [simp]: "name (Property_register p n a f) = name p"
  by (simp_all add: Property_register_def)

lemma rule_builder_keeps_required:
  "rule_builder b \<Longrightarrow>
     map_of (registry (apply_builder p b)) ''required'' = map_of (registry p) ''required''
     \<and> validators (apply_builder p b) = validators p"
  by (cases b)
    (simp_all add: Property_type_def Property_length_def Property_enum_def Property_match_def
      registry_register)

lemma rule_builders_keep_required:
  "\<forall>b\<in>set bs. rule_builder b \<Longrightarrow>
     map_of (registry (build p bs)) ''required'' = map_of (registry p) ''required''
     \<and> validators (build p bs) = validators p"
  unfolding build_def
  by (induction bs arbitrary: p) (simp_all add: rule_builder_keeps_required)

section \<open>Optional values\<close>

text \<open>
  C4. After \<open>required(false)\<close>, followed by any calls of \<open>type\<close>, \<open>length\<close>, \<open>enum\<close> and
  \<open>match\<close>, on a property in any earlier state, and with the default \<open>required\<close>
  validator in the table: the entry \<open>required\<close> is registered with the argument \<open>false\<close>,
  running it passes for every value, and \<open>validate\<close> returns \<open>false\<close> for \<open>null\<close> and
  for \<open>undefined\<close>.
\<close>

theorem required_false_accepts_null:
  assumes rules: "\<forall>b\<in>set bs. rule_builder b"
    and builtin: "vtables h (validators p0) ''required'' = Some (stateless Validators_required)"
    and q: "q = build (Property_required p0 (Bool False)) bs"
  shows "map_of (registry q) ''required'' = Some \<lparr>arg = Bool False, fn = None\<rparr>
   \<and> (\<forall>v. Property_run q h ''required'' v ctx path w = (Inr None, w))
   \<and> Property_validate q h Null ctx po w = (Inr None, w)
   \<and> Property_validate q h Undefined ctx po w = (Inr None, w)"
proof -
  have reg: "map_of (registry q) ''required'' = Some \<lparr>arg = Bool False, fn = None\<rparr>"
    and tab: "vtables h (validators q) ''required'' = Some (stateless Validators_required)"
    using rule_builders_keep_required [OF rules, of "Property_required p0 (Bool False)"] builtin q
    by (simp_all add: Property_required_def registry_register)
  have run: "Property_run q h ''required'' v ctx path' w = (Inr None, w)" for v path'
    using reg tab by (simp add: Property_run_def stateless_def Validators_required_def)
  show ?thesis
    using reg run by (simp add: Property_validate_def Let_def)
qed

theorem required_false_accepts_null_witness:
  "Property_validate
     (build (Property_required (Property_constructor ''title'' schema0) (Bool False))
        [BType (Str ''string''), BLength (Obj [(''min'', Num 1)]),
         BEnum (Arr [Str ''a'']), BMatch (RegExp ''^a$'')])
     store0 Null Null None world0 = (Inr None, world0)
   \<and> Property_validate
     (build (Property_required (Property_constructor ''title'' schema0) (Bool False))
        [BType (Str ''string''), BLength (Obj [(''min'', Num 1)]),
         BEnum (Arr [Str ''a'']), BMatch (RegExp ''^a$'')])
     store0 Undefined Null None world0 = (Inr None, world0)"
  using required_false_accepts_null [of
      "[BType (Str ''string''), BLength (Obj [(''min'', Num 1)]),
         BEnum (Arr [Str ''a'']), BMatch (RegExp ''^a$'')]"
      store0 "Property_constructor ''title'' schema0"
      "build (Property_required (Property_constructor ''title'' schema0) (Bool False))
        [BType (Str ''string''), BLength (Obj [(''min'', Num 1)]),
         BEnum (Arr [Str ''a'']), BMatch (RegExp ''^a$'')]"
      Null "''title''" world0 None]
  by (simp add: Property_constructor_def store0_def schema0_def Validators_def)

section \<open>Error messages\<close>

text \<open>
  C5 as stated: the message comes from the entry of the failing name, and the default
  is used when no entry of that name exists. With the entry \<open>hex: ''\<close> in the messages
  table, the entry exists and the message is still the default one.
\<close>

theorem error_message_empty_template_counterexample:
  "mtables (Schema_message schema0 ''hex'' (TStr []) store0) (messages hex_fails_prop) ''hex''
     = Some (TStr [])
   \<and> Property_validate hex_fails_prop (Schema_message schema0 ''hex'' (TStr []) store0)
       (Str ''zz'') Null None world0
     = (Inr (Some \<lparr>err_message = ''Validation failed for x'', err_path = ''x''\<rparr>), world0)"
  by (simp add: hex_fails_prop_def builder_defs keys_defs inherited_defs done_get_def builtin_prop_def Schema_message_def store0_def
      schema0_def Property_validate_def Property_run_def stateless_def Property_error_def
      messages0_def Let_def)

text \<open>
  C5, amended. The error of a failing check carries the path. Its message comes from
  the entry of the failing name in the messages table when that entry is a function or
  a non-empty string, and from the \<open>default\<close> entry when the name has no entry or the
  empty string; a function template gives exactly its result on \<open>(path, arg)\<close>, a string
  template gives itself, and no template at all gives the empty message.
\<close>

theorem error_message_lookup:
  assumes "Property_run p h n value ctx path w = (Inr (Some e), w')"
    and "map_of (registry p) n = Some en"
  shows "err_path e = path
   \<and> (\<forall>f. mtables h (messages p) n = Some (TFn f) \<longrightarrow> err_message e = f path (arg en))
   \<and> (\<forall>s. mtables h (messages p) n = Some (TStr s) \<and> s \<noteq> [] \<longrightarrow> err_message e = s)
   \<and> (mtables h (messages p) n = None \<or> mtables h (messages p) n = Some (TStr []) \<longrightarrow>
        (\<forall>f. mtables h (messages p) ''default'' = Some (TFn f) \<longrightarrow> err_message e = f path (arg en))
        \<and> (\<forall>s. mtables h (messages p) ''default'' = Some (TStr s) \<longrightarrow> err_message e = s)
        \<and> (mtables h (messages p) ''default'' = None \<longrightarrow> err_message e = []))"
proof -
  from Property_run_error [OF assms(1)] assms(2)
  have "e = Property_error p h n (arg en) path" by auto
  then show ?thesis
    by (auto simp: Property_error_def Let_def)
qed

theorem error_message_lookup_witness:
  "Property_run hex_fails_prop
      (Schema_message schema0 ''hex'' (TFn (\<lambda>path a. path @ '' must be hexadecimal'')) store0)
      ''hex'' (Str ''zz'') Null ''some.path'' world0
     = (Inr (Some \<lparr>err_message = ''some.path must be hexadecimal'', err_path = ''some.path''\<rparr>),
        world0)"
  using error_message_lookup [of hex_fails_prop
      "Schema_message schema0 ''hex'' (TFn (\<lambda>path a. path @ '' must be hexadecimal'')) store0"
      "''hex''" "Str ''zz''" Null "''some.path''" world0
      "\<lparr>err_message = ''some.path must be hexadecimal'', err_path = ''some.path''\<rparr>" world0
      "\<lparr>arg = Null, fn = Some (stateless (\<lambda>value ctx a. Inr (Bool False)))\<rparr>"]
  by (simp add: hex_fails_prop_def builder_defs keys_defs inherited_defs done_get_def builtin_prop_def Schema_message_def store0_def
      schema0_def Property_run_def stateless_def Property_error_def)

section \<open>The tables of the schema\<close>

lemma apply_builder_addresses:
  "validators (apply_builder p b) = validators p \<and> messages (apply_builder p b) = messages p"
proof (cases b)
  case (BUse fns)
  have "validators (foldl (\<lambda>q n. Property_register q n Null (g n)) p ns) = validators p
      \<and> messages (foldl (\<lambda>q n. Property_register q n Null (g n)) p ns) = messages p"
    for ns and g :: "string \<Rightarrow> validator option"
    by (induction ns arbitrary: p) simp_all
  with BUse show ?thesis by (simp add: Property_use_def)
qed (simp_all add: Property_required_def Property_type_def Property_length_def Property_enum_def
      Property_match_def Property_register_def)

lemma build_addresses:
  "validators (build (Property_constructor nm S) bs) = s_validators S
   \<and> messages (build (Property_constructor nm S) bs) = s_messages S"
proof -
  have "validators (foldl apply_builder p bs) = validators p
      \<and> messages (foldl apply_builder p bs) = messages p" for p
    by (induction bs arbitrary: p) (simp_all add: apply_builder_addresses)
  then show ?thesis by (simp add: build_def Property_constructor_def)
qed

text \<open>
  C6. A property created for a schema, after any chain of builder calls, holds the
  addresses of the schema's two tables and no table of its own: what the schema writes
  into a table is what the property reads there. So after the schema's validators
  table gets a function for a name, running an entry of that name without a function
  of its own calls the new function; and after the schema's messages table gets a
  template for a name (other than the empty string), the error for that name is built
  from the new template.
\<close>

theorem tables_shared_with_schema:
  assumes p: "p = build (Property_constructor nm S) bs"
    and entry: "map_of (registry p) n = Some e" "fn e = None"
  shows "validators p = s_validators S \<and> messages p = s_messages S
   \<and> vtables (Schema_validator S n f h) (validators p) n = Some f
   \<and> mtables (Schema_message S n t h) (messages p) n = Some t
   \<and> Property_run p (Schema_validator S n f h) n v ctx path w =
       (case f w v ctx (arg e) of
          (Inl x, w') \<Rightarrow> (Inl x, w')
        | (Inr valid, w') \<Rightarrow>
            if truthy valid then (Inr None, w')
            else (Inr (Some (Property_error p (Schema_validator S n f h) n (arg e) path)), w'))
   \<and> (template_truthy t \<longrightarrow>
        err_message (Property_error p (Schema_message S n t h) n a path) =
          (case t of TStr s \<Rightarrow> s | TFn g \<Rightarrow> g path a))"
  using build_addresses [of nm S bs] p entry
  by (auto simp: Property_run_def Schema_validator_def Schema_message_def Property_error_def
      Let_def split: prod.splits sum.splits template.splits)

theorem tables_shared_with_schema_witness:
  "Property_validate title_prop store0 (Str ''ab'') Null None world0 = (Inr None, world0)
   \<and> Property_run title_prop
        (Schema_validator schema0 ''length'' (stateless (\<lambda>value ctx a. Inr (Bool False))) store0)
        ''length'' (Str ''ab'') Null ''title'' world0
      = (Inr (Some \<lparr>err_message = ''Validation failed for title'', err_path = ''title''\<rparr>), world0)
   \<and> err_message (Property_error title_prop (Schema_message schema0 ''length'' (TStr ''too long'') store0)
        ''length'' Null ''title'') = ''too long''"
proof -
  have e: "map_of (registry title_prop) ''length'' =
      Some \<lparr>arg = Obj [(''min'', Num 1), (''max'', Num 5)], fn = None\<rparr>"
    by (simp add: title_prop_def builder_defs)
  have before: "Property_validate title_prop store0 (Str ''ab'') Null None world0 = (Inr None, world0)"
    by (simp add: title_prop_def builder_defs Property_validate_def Property_run_def keys_defs inherited_defs done_get_def builtin_prop_def
     store0_def schema0_def Validators_def stateless_def Validators_required_def Validators_type_def
     Validators_length_def js_less_def Let_def)
  have msg: "Property_error title_prop
        (Schema_validator schema0 ''length'' (stateless (\<lambda>value ctx a. Inr (Bool False))) store0)
        ''length'' a ''title'' = \<lparr>err_message = ''Validation failed for title'', err_path = ''title''\<rparr>" for a
    by (simp add: title_prop_def builder_defs Property_error_def Schema_validator_def store0_def
        schema0_def messages0_def Let_def)
  from tables_shared_with_schema [where p = title_prop and nm = "''title''" and S = schema0
      and bs = "[BLength (Obj [(''min'', Num 1), (''max'', Num 5)]), BType (Str ''string''),
                 BRequired Undefined]"
      and n = "''length''" and e = "\<lparr>arg = Obj [(''min'', Num 1), (''max'', Num 5)], fn = None\<rparr>"
      and t = "TStr ''too long''" and f = "stateless (\<lambda>value ctx a. Inr (Bool False))"
      and h = store0 and v = "Str ''ab''" and ctx = Null and path = "''title''"
      and w = world0 and a = Null, OF title_prop_def e]
  show ?thesis
    using before by (simp add: stateless_def msg)
qed

section \<open>One binding for each name\<close>

lemma distinct_register:
  "distinct (map fst (registry p)) \<Longrightarrow> distinct (map fst (registry (Property_register p n a f)))"
  by (simp add: Property_register_def distinct_update)

lemma keys_register_present:
  "n \<in> fst ` set (registry p) \<Longrightarrow>
     map fst (registry (Property_register p n a f)) = map fst (registry p)"
  by (simp add: Property_register_def update_keys)

lemma registers_binding:
  "map_of (registry (foldl (\<lambda>q n. Property_register q n Null (g n)) p ns)) m =
     (if m \<in> set ns then Some \<lparr>arg = Null, fn = g m\<rparr> else map_of (registry p) m)"
  by (induction ns arbitrary: p) (simp_all add: registry_register)

lemma registers_distinct:
  "distinct (map fst (registry p)) \<Longrightarrow>
     distinct (map fst (registry (foldl (\<lambda>q n. Property_register q n Null (g n)) p ns)))"
  by (induction ns arbitrary: p) (simp_all add: distinct_register)

lemma registers_keys:
  "set ns \<subseteq> fst ` set (registry p) \<Longrightarrow>
     map fst (registry (foldl (\<lambda>q n. Property_register q n Null (g n)) p ns)) =
     map fst (registry p)"
proof (induction ns arbitrary: p)
  case Nil
  then show ?case by simp
next
  case (Cons n ns)
  then have k: "map fst (registry (Property_register p n Null (g n))) = map fst (registry p)"
    by (simp add: keys_register_present)
  have "fst ` set (registry (Property_register p n Null (g n))) = fst ` set (registry p)"
    using arg_cong [OF k, of set] by simp
  with Cons k show ?case by simp
qed

lemma Property_use_fold:
  "Property_use p fns =
     foldl (\<lambda>q n. Property_register q n Null
              (case map_of fns n of None \<Rightarrow> None | Some f \<Rightarrow> f)) p (Object_keys fns)"
  by (simp add: Property_use_def)

lemma apply_builder_binding:
  "map_of (registry (apply_builder p b)) n =
     (if n \<in> set (builder_names b) then Some (builder_entry b n) else map_of (registry p) n)"
  by (cases b)
    (simp_all add: Property_required_def Property_type_def Property_length_def Property_enum_def
      Property_match_def registry_register Property_use_fold registers_binding set_Object_keys)

lemma distinct_apply_builder:
  "distinct (map fst (registry p)) \<Longrightarrow> distinct (map fst (registry (apply_builder p b)))"
proof (cases b)
  case (BUse fns)
  assume "distinct (map fst (registry p))"
  with BUse show ?thesis
    by (simp add: Property_use_fold registers_distinct)
qed (simp_all add: Property_required_def Property_type_def Property_length_def Property_enum_def
      Property_match_def Property_register_def distinct_update)

lemma apply_builder_keys:
  "set (builder_names b) \<subseteq> fst ` set (registry p) \<Longrightarrow>
     map fst (registry (apply_builder p b)) = map fst (registry p)"
proof (cases b)
  case (BType t)
  assume "set (builder_names b) \<subseteq> fst ` set (registry p)"
  with BType show ?thesis
    by (simp add: Property_type_def Property_register_def update_keys)
next
  case (BUse fns)
  assume "set (builder_names b) \<subseteq> fst ` set (registry p)"
  with BUse have "set (Object_keys fns) \<subseteq> fst ` set (registry p)"
    by (simp add: set_Object_keys)
  with BUse show ?thesis
    by (simp add: Property_use_fold registers_keys)
qed (simp_all add: Property_required_def Property_length_def Property_enum_def
      Property_match_def keys_register_present)

lemma distinct_build:
  "distinct (map fst (registry p)) \<Longrightarrow> distinct (map fst (registry (build p bs)))"
  unfolding build_def by (induction bs arbitrary: p) (simp_all add: distinct_apply_builder)

text \<open>
  C10. The registry of a property built from the constructor by builder calls has
  every name once, and one more builder call keeps it so. After a builder call the
  binding of each name the call registers is the new argument and function, and the
  binding of every other name is as before; when the names were all there already,
  the list of names is the same as before: no second entry is added. The same holds
  for \<open>_register\<close>. No name is scheduled twice by \<open>validate\<close>.
\<close>

theorem registry_one_binding:
  assumes p: "p = build (Property_constructor nm S) bs"
  shows "distinct (map fst (registry p))
   \<and> distinct (map fst (registry (apply_builder p b)))
   \<and> map_of (registry (apply_builder p b)) n =
       (if n \<in> set (builder_names b) then Some (builder_entry b n)
        else map_of (registry p) n)
   \<and> (set (builder_names b) \<subseteq> fst ` set (registry p) \<longrightarrow>
        map fst (registry (apply_builder p b)) = map fst (registry p))
   \<and> map_of (registry (Property_register p n a f)) n = Some \<lparr>arg = a, fn = f\<rparr>
   \<and> (n \<in> fst ` set (registry p) \<longrightarrow>
        map fst (registry (Property_register p n a f)) = map fst (registry p))
   \<and> distinct (validate_order p v)"
proof -
  have d: "distinct (map fst (registry p))"
    unfolding p by (rule distinct_build) (simp add: Property_constructor_def)
  then show ?thesis
    by (simp add: distinct_apply_builder apply_builder_binding apply_builder_keys
        registry_register keys_register_present distinct_validate_order)
qed

theorem registry_one_binding_witness:
  "map fst (registry logged_prop) = [''b'', ''type'', ''a'', ''required'']
   \<and> map_of (registry logged_prop) ''type'' = Some \<lparr>arg = Null, fn = Some (logging ''type'')\<rparr>
   \<and> map fst (registry (Property_type logged_prop (Str ''string'')))
       = [''b'', ''type'', ''a'', ''required'']
   \<and> map_of (registry (Property_type logged_prop (Str ''string''))) ''type''
       = Some \<lparr>arg = Str ''string'', fn = None\<rparr>
   \<and> map fst (registry (Property_register logged_prop ''b'' (Num 7) None))
       = [''b'', ''type'', ''a'', ''required'']
   \<and> map_of (registry (Property_register logged_prop ''b'' (Num 7) None)) ''b''
       = Some \<lparr>arg = Num 7, fn = None\<rparr>"
proof -
  have k: "map fst (registry logged_prop) = [''b'', ''type'', ''a'', ''required'']"
    "map_of (registry logged_prop) ''type'' = Some \<lparr>arg = Null, fn = Some (logging ''type'')\<rparr>"
    by (simp_all add: logged_prop_def builder_defs keys_defs)
  have m: "''b'' \<in> fst ` set (registry logged_prop)"
    "set (builder_names (BType (Str ''string''))) \<subseteq> fst ` set (registry logged_prop)"
    by (simp_all add: logged_prop_def builder_defs keys_defs)
  from registry_one_binding [where p = logged_prop and nm = "''x''" and S = schema0
      and bs = "[BUse [(''b'', Some (logging ''b'')), (''type'', Some (logging ''type''))],
                 BUse [(''a'', Some (logging ''a'')), (''required'', Some (logging ''required'')),
                       (''b'', Some (logging ''b again''))]]"
      and b = "BType (Str ''string'')" and n = "''b''" and a = "Num 7" and f = None
      and v = Null, OF logged_prop_def]
    registry_one_binding [where p = logged_prop and nm = "''x''" and S = schema0
      and bs = "[BUse [(''b'', Some (logging ''b'')), (''type'', Some (logging ''type''))],
                 BUse [(''a'', Some (logging ''a'')), (''required'', Some (logging ''required'')),
                       (''b'', Some (logging ''b again''))]]"
      and b = "BType (Str ''string'')" and n = "''type''" and a = "Num 7" and f = None
      and v = Null, OF logged_prop_def, THEN conjunct2, THEN conjunct2, THEN conjunct1]
  show ?thesis using m by (simp add: k)
qed

section \<open>Determinism\<close>









end
